theory Spec2Isabelle
  imports Main "HOL-Library.Sublist"
begin

section \<open>Python values and library functions used by \<^verbatim>\<open>docker/pgosm_flex.py\<close>\<close>

text \<open>
  The script is dynamically typed: \<^verbatim>\<open>region\<close>, \<^verbatim>\<open>subregion\<close>,
  \<^verbatim>\<open>conn_str\<close>, \<^verbatim>\<open>input_file\<close> and \<^verbatim>\<open>layerset_path\<close> hold a
  \<^verbatim>\<open>str\<close> or \<^verbatim>\<open>None\<close>. Such a value is a \<open>string option\<close>. Strings are
  byte strings. Every exception the script can raise is a value of \<open>py_error\<close>;
  a function that can raise returns \<open>py_error + 'a\<close>.
\<close>

type_synonym pystr = "string option"

datatype py_error =
    ValueError string
  | AttributeError string
  | FileNotFoundError string
  | SameFileError string
  | CalledProcessError "string list"
  | SystemExit string
  | CollaboratorError string

text \<open>\<^verbatim>\<open>str(x)\<close> and \<^verbatim>\<open>f'{x}'\<close> for a value that is a str or None.\<close>

definition py_str :: "pystr \<Rightarrow> string" where
  "py_str x = (case x of None \<Rightarrow> ''None'' | Some s \<Rightarrow> s)"

text \<open>
  \<^verbatim>\<open>s.replace(old, new)\<close>: every non-overlapping occurrence of \<^verbatim>\<open>old\<close>, found
  from the left, is replaced. For an empty \<^verbatim>\<open>old\<close>, Python puts \<^verbatim>\<open>new\<close> before
  every character and at the end.
\<close>

fun replace_from :: "string \<Rightarrow> string \<Rightarrow> string \<Rightarrow> string" where
  "replace_from old new [] = []"
| "replace_from old new (c # cs) =
     (if prefix old (c # cs) then new @ replace_from old new (drop (length old - 1) cs)
      else c # replace_from old new cs)"

definition py_replace :: "string \<Rightarrow> string \<Rightarrow> string \<Rightarrow> string" where
  "py_replace s old new =
     (if old = [] then new @ concat (map (\<lambda>c. c # new) s) else replace_from old new s)"

text \<open>
  The method call \<^verbatim>\<open>x.replace(old, new)\<close> on a value that may be None:
  \<^verbatim>\<open>None\<close> has no such attribute and the call raises \<^verbatim>\<open>AttributeError\<close>.
\<close>

definition attr_replace :: "pystr \<Rightarrow> string \<Rightarrow> string \<Rightarrow> py_error + string" where
  "attr_replace x old new =
     (case x of
        None \<Rightarrow> Inl (AttributeError ''NoneType object has no attribute replace'')
      | Some s \<Rightarrow> Inr (py_replace s old new))"

text \<open>\<^verbatim>\<open>p.rfind(c)\<close> for a single character: the highest index of \<^verbatim>\<open>c\<close>, or -1.\<close>

definition rfind :: "string \<Rightarrow> char \<Rightarrow> int" where
  "rfind p c =
     (case filter (\<lambda>k. p ! k = c) (rev [0..<length p]) of [] \<Rightarrow> - 1 | k # _ \<Rightarrow> int k)"

text \<open>\<^verbatim>\<open>os.path.join(a, b)\<close>, \<^verbatim>\<open>os.path.basename(p)\<close> and
  \<^verbatim>\<open>os.path.splitext(p)[0]\<close> of \<^verbatim>\<open>posixpath\<close>.\<close>

definition path_join :: "string \<Rightarrow> string \<Rightarrow> string" where
  "path_join a b =
     (if prefix ''/'' b then b
      else if a = [] \<or> suffix ''/'' a then a @ b
      else a @ ''/'' @ b)"

definition basename :: "string \<Rightarrow> string" where
  "basename p = drop (nat (rfind p (CHR ''/'') + 1)) p"

definition splitext_root :: "string \<Rightarrow> string" where
  "splitext_root p =
     (let sepIndex = rfind p (CHR ''/'');
          dotIndex = rfind p (CHR ''.'')
      in if dotIndex > sepIndex \<and>
            list_ex (\<lambda>k. p ! k \<noteq> CHR ''.'') [nat (sepIndex + 1)..<nat dotIndex]
         then take (nat dotIndex) p
         else p)"

section \<open>Paths and artifact names\<close>

record paths =
  base_path :: string
  db_path :: string
  out_path :: string
  flex_path :: string

text \<open>
  \<^verbatim>\<open>get_paths\<close>. The file system of the model holds regular files only, so the
  \<^verbatim>\<open>mkdir(parents=True, exist_ok=True)\<close> of the output directory changes nothing in it.
\<close>

definition get_paths :: "string \<Rightarrow> paths" where
  "get_paths base =
     \<lparr>base_path = base,
      db_path = path_join base ''db'',
      out_path = path_join base ''output'',
      flex_path = path_join base ''flex-config''\<rparr>"

definition get_region_filename :: "pystr \<Rightarrow> pystr \<Rightarrow> string" where
  "get_region_filename region subregion =
     (if subregion = None then py_str region @ ''-latest.osm.pbf''
      else py_str subregion @ ''-latest.osm.pbf'')"

definition get_export_filename ::
  "pystr \<Rightarrow> pystr \<Rightarrow> string \<Rightarrow> string \<Rightarrow> py_error + string" where
  "get_export_filename region subregion layerset pgosm_date =
     (case attr_replace region ''/'' ''-'' of
        Inl e \<Rightarrow> Inl e
      | Inr region' \<Rightarrow>
          (case attr_replace subregion ''/'' ''-'' of
             Inl e \<Rightarrow> Inl e
           | Inr s \<Rightarrow>
               let subregion' = Some s in
               if subregion' = None
               then Inr (''pgosm-flex-'' @ region' @ ''-'' @ layerset @ ''-'' @ pgosm_date @ ''.sql'')
               else Inr (''pgosm-flex-'' @ region' @ ''-'' @ py_str subregion' @ ''-'' @ layerset
                         @ ''-'' @ pgosm_date @ ''.sql'')))"

definition base_url :: string where
  "base_url = ''https://download.geofabrik.de''"

definition get_pbf_url :: "pystr \<Rightarrow> pystr \<Rightarrow> string" where
  "get_pbf_url region subregion =
     (if subregion = None then base_url @ ''/'' @ py_str region @ ''-latest.osm.pbf''
      else base_url @ ''/'' @ py_str region @ ''/'' @ py_str subregion @ ''-latest.osm.pbf'')"

definition get_log_path :: "pystr \<Rightarrow> pystr \<Rightarrow> paths \<Rightarrow> py_error + string" where
  "get_log_path region subregion ps =
     (case attr_replace region ''/'' ''-'' of
        Inl e \<Rightarrow> Inl e
      | Inr region_clean \<Rightarrow>
          let filename = (if subregion = None then region_clean @ ''.log''
                          else region_clean @ ''-'' @ py_str subregion @ ''.log'')
          in Inr (path_join (out_path ps) filename))"

section \<open>The readiness poller\<close>

text \<open>
  \<^verbatim>\<open>wait_for_postgres\<close>. The answers of \<^verbatim>\<open>db.pg_isready\<close> are an oracle: the
  answer to invocation number \<open>k\<close> (from 0). The state holds the loop's two variables and
  counts the invocations of the check and of \<^verbatim>\<open>time.sleep(5)\<close>. The counters start at
  0 and only grow, so they are naturals. \<^verbatim>\<open>sys.exit(err)\<close> is the outcome \<open>Exit err\<close>,
  with the state at that moment.
\<close>

record poll_state =
  found :: nat
  loop_i :: nat
  checks :: nat
  sleeps :: nat

datatype outcome = Ready poll_state | Exit string poll_state

definition required_checks :: nat where
  "required_checks = 2"

definition max_loops :: nat where
  "max_loops = 30"

definition soft_err :: string where
  "soft_err = ''Postgres still has not started. Exiting.''"

definition hard_err :: string where
  "hard_err = ''Postgres still not available. Exiting.''"

text \<open>One pass through the body of the \<^verbatim>\<open>while\<close> loop.\<close>

definition loop_body :: "(nat \<Rightarrow> bool) \<Rightarrow> poll_state \<Rightarrow> (string \<times> poll_state) + poll_state" where
  "loop_body isready st =
     (if loop_i st > max_loops then Inl (soft_err, st)
      else
        let st1 = st\<lparr>sleeps := sleeps st + 1\<rparr>;
            up = isready (checks st1);
            st2 = st1\<lparr>checks := checks st1 + 1\<rparr>;
            st3 = (if up then st2\<lparr>found := found st2 + 1\<rparr> else st2)
        in if loop_i st3 > 100 then Inl (hard_err, st3)
           else Inr (st3\<lparr>loop_i := loop_i st3 + 1\<rparr>))"

function wait_loop :: "(nat \<Rightarrow> bool) \<Rightarrow> poll_state \<Rightarrow> outcome" where
  "wait_loop isready st =
     (if found st < required_checks
      then (case loop_body isready st of
              Inl (err, st') \<Rightarrow> Exit err st'
            | Inr st' \<Rightarrow> wait_loop isready st')
      else Ready st)"
  by pat_completeness auto
termination
  by (relation "measure (\<lambda>(pg, st). Suc max_loops - loop_i st)")
     (auto simp: loop_body_def Let_def split: if_splits)

declare wait_loop.simps [simp del]

definition wait_for_postgres :: "(pystr \<Rightarrow> nat \<Rightarrow> bool) \<Rightarrow> pystr \<Rightarrow> outcome" where
  "wait_for_postgres isready conn_str =
     wait_loop (isready conn_str) \<lparr>found = 0, loop_i = 0, checks = 0, sleeps = 0\<rparr>"

section \<open>The world of one run\<close>

text \<open>
  The file system maps the path of a regular file to its content; two paths name the same
  file exactly when they are the same string. Directories are not modelled. The process
  environment is a map. Logging is left out, apart from the file the logger is set up
  with. Every call that leaves the script (a subprocess, a function of the modules
  \<^verbatim>\<open>db\<close> and \<^verbatim>\<open>osm2pgsql_recommendation\<close>) is appended to \<open>calls\<close> with
  its success flag, in the order it happens.
\<close>

type_synonym fs = "string \<rightharpoonup> string"

datatype ext_call =
    Wget string string
  | Md5sum_c string string
  | Osm2pgsql "string list" string
  | Osm2pgsql_recommendation int string string pystr
  | Prepare_pgosm_db bool paths pystr
  | Pgosm_after_import paths pystr
  | Pgosm_nested_admin_polygons paths pystr
  | Rename_schema string
  | Run_pg_dump string string bool string pystr

record world =
  files :: fs
  environ :: "string \<rightharpoonup> string"
  logger :: "(string \<times> bool) option"
  polled :: "poll_state option"
  calls :: "(ext_call \<times> bool) list"

text \<open>
  A parsed INI file, as \<^verbatim>\<open>configparser\<close> shows it through
  \<^verbatim>\<open>config[section][key]\<close>: values are strings.
\<close>

type_synonym config = "string \<rightharpoonup> (string \<rightharpoonup> string)"

text \<open>
  What the script does not decide is a parameter of the model: today's date, the effect
  and exit status of each external call on the file system, the answers of
  \<^verbatim>\<open>db.pg_isready\<close>, the command \<^verbatim>\<open>rec.osm2pgsql_recommendation\<close> returns,
  \<^verbatim>\<open>db.connection_string\<close>, and the INI files \<^verbatim>\<open>configparser\<close> can open and
  parse.
\<close>

record env =
  today :: string
  external :: "ext_call \<Rightarrow> fs \<Rightarrow> bool \<times> fs"
  pg_isready :: "pystr \<Rightarrow> nat \<Rightarrow> bool"
  recommended :: "int \<Rightarrow> string \<Rightarrow> string \<Rightarrow> pystr \<Rightarrow> fs \<Rightarrow> string"
  connection_string :: "string \<Rightarrow> string"
  ini_files :: "string \<rightharpoonup> config"

type_synonym 'a io = "world \<Rightarrow> (py_error + 'a) \<times> world"

definition io_return :: "'a \<Rightarrow> 'a io" where
  "io_return x = (\<lambda>w. (Inr x, w))"

definition io_raise :: "py_error \<Rightarrow> 'a io" where
  "io_raise e = (\<lambda>w. (Inl e, w))"

definition io_bind :: "'a io \<Rightarrow> ('a \<Rightarrow> 'b io) \<Rightarrow> 'b io" where
  "io_bind m f = (\<lambda>w. case m w of (Inl e, w') \<Rightarrow> (Inl e, w') | (Inr x, w') \<Rightarrow> f x w')"

definition io_lift :: "py_error + 'a \<Rightarrow> 'a io" where
  "io_lift r = (\<lambda>w. (r, w))"

definition run_external :: "env \<Rightarrow> ext_call \<Rightarrow> bool io" where
  "run_external E c =
     (\<lambda>w. let (ok, fs') = external E c (files w)
          in (Inr ok, w\<lparr>files := fs', calls := calls w @ [(c, ok)]\<rparr>))"

text \<open>\<^verbatim>\<open>subprocess.run(argv, check=True)\<close> and \<^verbatim>\<open>subprocess.check_output(argv)\<close>:
  a non-zero exit status raises \<^verbatim>\<open>CalledProcessError\<close>.\<close>

definition subprocess_run :: "env \<Rightarrow> ext_call \<Rightarrow> string list \<Rightarrow> unit io" where
  "subprocess_run E c argv =
     io_bind (run_external E c)
       (\<lambda>ok. if ok then io_return () else io_raise (CalledProcessError argv))"

text \<open>A function of module \<^verbatim>\<open>db\<close>; its failure ends the run.\<close>

definition db_call :: "env \<Rightarrow> ext_call \<Rightarrow> string \<Rightarrow> unit io" where
  "db_call E c name =
     io_bind (run_external E c)
       (\<lambda>ok. if ok then io_return () else io_raise (CollaboratorError name))"

definition path_exists :: "fs \<Rightarrow> string \<Rightarrow> bool" where
  "path_exists f p = (f p \<noteq> None)"

text \<open>\<^verbatim>\<open>shutil.copy2(src, dst)\<close> and \<^verbatim>\<open>os.remove(p)\<close> on regular files.\<close>

definition copy2 :: "string \<Rightarrow> string \<Rightarrow> unit io" where
  "copy2 src dst =
     (\<lambda>w. case files w src of
            None \<Rightarrow> (Inl (FileNotFoundError src), w)
          | Some content \<Rightarrow>
              if src = dst then (Inl (SameFileError src), w)
              else (Inr (), w\<lparr>files := (files w)(dst \<mapsto> content)\<rparr>))"

definition os_remove :: "string \<Rightarrow> unit io" where
  "os_remove p =
     (\<lambda>w. if path_exists (files w) p then (Inr (), w\<lparr>files := (files w)(p := None)\<rparr>)
          else (Inl (FileNotFoundError p), w))"

section \<open>Data acquisition\<close>

definition pbf_download_needed :: "env \<Rightarrow> string \<Rightarrow> string \<Rightarrow> string \<Rightarrow> fs \<Rightarrow> py_error + bool" where
  "pbf_download_needed E pbf_file_with_date md5_file_with_date pgosm_date f =
     (if path_exists f pbf_file_with_date then
        (if path_exists f md5_file_with_date then Inr False
         else if pgosm_date = today E then Inr True
         else Inl (FileNotFoundError (''Missing MD5 file for '' @ pgosm_date @ ''. Cannot validate.'')))
      else if \<not> pgosm_date = today E
        then Inl (FileNotFoundError (''Missing PBF file for '' @ pgosm_date @ ''. Cannot proceed.''))
      else Inr True)"

definition download_data :: "env \<Rightarrow> pystr \<Rightarrow> pystr \<Rightarrow> string \<Rightarrow> string \<Rightarrow> unit io" where
  "download_data E region subregion pbf_file md5_file =
     (let pbf_url = get_pbf_url region subregion in
      io_bind
        (subprocess_run E (Wget pbf_url pbf_file)
           [''/usr/bin/wget'', pbf_url, ''-O'', pbf_file, ''--quiet''])
        (\<lambda>_. subprocess_run E (Wget (pbf_url @ ''.md5'') md5_file)
           [''/usr/bin/wget'', pbf_url @ ''.md5'', ''-O'', md5_file, ''--quiet'']))"

definition verify_checksum :: "env \<Rightarrow> string \<Rightarrow> paths \<Rightarrow> unit io" where
  "verify_checksum E md5_file ps =
     subprocess_run E (Md5sum_c md5_file (out_path ps)) [''md5sum'', ''-c'', md5_file]"

definition archive_data :: "string \<Rightarrow> string \<Rightarrow> string \<Rightarrow> string \<Rightarrow> unit io" where
  "archive_data pbf_file md5_file pbf_file_with_date md5_file_with_date =
     io_bind
       (\<lambda>w. if path_exists (files w) pbf_file_with_date then io_return () w
            else copy2 pbf_file pbf_file_with_date w)
       (\<lambda>_ w. if path_exists (files w) md5_file_with_date then io_return () w
            else copy2 md5_file md5_file_with_date w)"

definition unarchive_data :: "string \<Rightarrow> string \<Rightarrow> string \<Rightarrow> string \<Rightarrow> unit io" where
  "unarchive_data pbf_file md5_file pbf_file_with_date md5_file_with_date =
     io_bind (copy2 pbf_file_with_date pbf_file) (\<lambda>_. copy2 md5_file_with_date md5_file)"

definition prepare_data :: "env \<Rightarrow> pystr \<Rightarrow> pystr \<Rightarrow> string \<Rightarrow> paths \<Rightarrow> string io" where
  "prepare_data E region subregion pgosm_date ps =
     (let pbf_filename = get_region_filename region subregion;
          pbf_file = path_join (out_path ps) pbf_filename;
          pbf_file_with_date = py_replace pbf_file ''latest'' pgosm_date;
          md5_file = pbf_file @ ''.md5'';
          md5_file_with_date = pbf_file_with_date @ ''.md5''
      in io_bind
           (\<lambda>w. (pbf_download_needed E pbf_file_with_date md5_file_with_date pgosm_date (files w), w))
           (\<lambda>download_needed.
              io_bind
                (if download_needed
                 then io_bind (download_data E region subregion pbf_file md5_file)
                        (\<lambda>_. archive_data pbf_file md5_file pbf_file_with_date md5_file_with_date)
                 else unarchive_data pbf_file md5_file pbf_file_with_date md5_file_with_date)
                (\<lambda>_. io_bind (verify_checksum E md5_file ps) (\<lambda>_. io_return pbf_file))))"

definition remove_latest_files :: "pystr \<Rightarrow> pystr \<Rightarrow> paths \<Rightarrow> unit io" where
  "remove_latest_files region subregion ps =
     (let pbf_filename = get_region_filename region subregion;
          pbf_file = path_join (out_path ps) pbf_filename;
          md5_file = pbf_file @ ''.md5''
      in io_bind (os_remove pbf_file) (\<lambda>_. os_remove md5_file))"


section \<open>The pipeline\<close>

text \<open>\<^verbatim>\<open>s.split()\<close>: the maximal runs of non-whitespace characters (ASCII whitespace).\<close>

definition is_space :: "char \<Rightarrow> bool" where
  "is_space c = (c \<in> set [CHR 0x20, CHR 0x09, CHR 0x0A, CHR 0x0B, CHR 0x0C, CHR 0x0D,
                           CHR 0x1C, CHR 0x1D, CHR 0x1E, CHR 0x1F])"

fun words_from :: "string \<Rightarrow> string \<Rightarrow> string list" where
  "words_from cur [] = (if cur = [] then [] else [cur])"
| "words_from cur (c # cs) =
     (if is_space c then (if cur = [] then words_from [] cs else cur # words_from [] cs)
      else words_from (cur @ [c]) cs)"

definition py_split :: "string \<Rightarrow> string list" where
  "py_split s = words_from [] s"

definition DEFAULT_SRID :: string where
  "DEFAULT_SRID = ''3857''"

definition set_env_vars ::
  "env \<Rightarrow> pystr \<Rightarrow> pystr \<Rightarrow> string \<Rightarrow> pystr \<Rightarrow> string \<Rightarrow> string \<Rightarrow> pystr \<Rightarrow> pystr \<Rightarrow> unit io" where
  "set_env_vars E region subregion srid language pgosm_date layerset layerset_path conn_str =
     (\<lambda>w.
        let pgosm_region = (if subregion = None then py_str region
                            else py_str region @ ''-'' @ py_str subregion);
            e1 = (environ w)(''PGOSM_REGION'' \<mapsto> pgosm_region);
            e2 = (if srid \<noteq> DEFAULT_SRID then e1(''PGOSM_SRID'' \<mapsto> srid) else e1);
            e3 = (if language \<noteq> None then e2(''PGOSM_LANGUAGE'' \<mapsto> py_str language) else e2);
            e4 = (if layerset_path \<noteq> None then e3(''PGOSM_LAYERSET_PATH'' \<mapsto> py_str layerset_path)
                  else e3);
            e5 = e4(''PGOSM_DATE'' \<mapsto> pgosm_date);
            e6 = e5(''PGOSM_LAYERSET'' \<mapsto> layerset);
            e7 = e6(''PGOSM_CONN'' \<mapsto>
                     (if conn_str = None then connection_string E ''pgosm'' else py_str conn_str))
        in (Inr (), w\<lparr>environ := e7\<rparr>))"

definition setup_logger :: "string \<Rightarrow> bool \<Rightarrow> unit io" where
  "setup_logger log_file debug = (\<lambda>w. (Inr (), w\<lparr>logger := Some (log_file, debug)\<rparr>))"

definition osm2pgsql_recommendation :: "env \<Rightarrow> int \<Rightarrow> string \<Rightarrow> string \<Rightarrow> pystr \<Rightarrow> string io" where
  "osm2pgsql_recommendation E ram pbf_filename out conn_str =
     io_bind (run_external E (Osm2pgsql_recommendation ram pbf_filename out conn_str))
       (\<lambda>ok. if ok then (\<lambda>w. (Inr (recommended E ram pbf_filename out conn_str (files w)), w))
             else io_raise (CollaboratorError ''osm2pgsql_recommendation''))"

definition get_osm2pgsql_command :: "env \<Rightarrow> pystr \<Rightarrow> pystr \<Rightarrow> int \<Rightarrow> paths \<Rightarrow> pystr \<Rightarrow> string io" where
  "get_osm2pgsql_command E region subregion ram ps conn_str =
     (let pbf_filename = get_region_filename region subregion
      in osm2pgsql_recommendation E ram pbf_filename (out_path ps) conn_str)"

definition wait_for_postgres_io :: "env \<Rightarrow> pystr \<Rightarrow> unit io" where
  "wait_for_postgres_io E conn_str =
     (\<lambda>w. case wait_for_postgres (pg_isready E) conn_str of
            Ready st \<Rightarrow> (Inr (), w\<lparr>polled := Some st\<rparr>)
          | Exit err st \<Rightarrow> (Inl (SystemExit err), w\<lparr>polled := Some st\<rparr>))"

definition run_osm2pgsql :: "env \<Rightarrow> string \<Rightarrow> paths \<Rightarrow> unit io" where
  "run_osm2pgsql E osm2pgsql_command ps =
     subprocess_run E (Osm2pgsql (py_split osm2pgsql_command) (flex_path ps))
       (py_split osm2pgsql_command)"

text \<open>
  \<^verbatim>\<open>config.read(ini_file)\<close> skips a file it cannot open, which leaves the configuration
  empty. \<^verbatim>\<open>config[section][key]\<close> raises \<^verbatim>\<open>KeyError\<close> (here \<open>None\<close>) for a missing
  section or key. \<^verbatim>\<open>if place:\<close> tests a string: it is true for every non-empty one.
\<close>

definition config_read :: "(string \<rightharpoonup> config) \<Rightarrow> string \<Rightarrow> config" where
  "config_read inis ini_file = (case inis ini_file of None \<Rightarrow> Map.empty | Some c \<Rightarrow> c)"

definition config_get :: "config \<Rightarrow> string \<Rightarrow> string \<Rightarrow> string option" where
  "config_get c section key = (case c section of None \<Rightarrow> None | Some kv \<Rightarrow> kv key)"

definition check_layerset_places :: "(string \<rightharpoonup> config) \<Rightarrow> pystr \<Rightarrow> string \<Rightarrow> paths \<Rightarrow> bool" where
  "check_layerset_places inis layerset_path layerset ps =
     (let layerset_path' = (case layerset_path of
                              None \<Rightarrow> path_join (flex_path ps) ''layerset''
                            | Some p \<Rightarrow> p);
          ini_file = path_join layerset_path' (layerset @ ''.ini'');
          config = config_read inis ini_file
      in case config_get config ''layerset'' ''place'' of
           None \<Rightarrow> True
         | Some place \<Rightarrow> if place \<noteq> [] then False else True)"

definition run_post_processing :: "env \<Rightarrow> paths \<Rightarrow> bool \<Rightarrow> pystr \<Rightarrow> unit io" where
  "run_post_processing E ps skip_nested conn_str =
     io_bind (db_call E (Pgosm_after_import ps conn_str) ''pgosm_after_import'')
       (\<lambda>_. if skip_nested then io_return ()
            else db_call E (Pgosm_nested_admin_polygons ps conn_str) ''pgosm_nested_admin_polygons'')"

definition run_pgosm_flex ::
  "env \<Rightarrow> string \<Rightarrow> pystr \<Rightarrow> int \<Rightarrow> pystr \<Rightarrow> pystr \<Rightarrow> string \<Rightarrow> string \<Rightarrow> pystr \<Rightarrow> string \<Rightarrow>
   bool \<Rightarrow> bool \<Rightarrow> bool \<Rightarrow> bool \<Rightarrow> string \<Rightarrow> pystr \<Rightarrow> pystr \<Rightarrow> unit io" where
  "run_pgosm_flex E layerset layerset_path ram region subregion0 srid pgosm_date language
       schema_name skip_nested0 data_only skip_dump debug basepath input_file conn_str =
     (if region = None \<and> input_file = None
      then io_raise (ValueError ''either region or input_file must be provided'')
      else
        let ps = get_paths basepath;
            subregion = (if input_file = None \<and> subregion0 = Some ''none'' then None else subregion0)
        in
        io_bind
          (case input_file of
             Some f \<Rightarrow> io_return (path_join (out_path ps) (basename f @ ''.log''))
           | None \<Rightarrow> io_lift (get_log_path region subregion ps))
          (\<lambda>log_file.
        io_bind (setup_logger log_file debug)
          (\<lambda>_.
        io_bind (set_env_vars E region subregion srid language pgosm_date layerset layerset_path conn_str)
          (\<lambda>_.
        io_bind
          (case input_file of
             None \<Rightarrow>
               io_bind (prepare_data E region subregion pgosm_date ps)
                 (\<lambda>_. get_osm2pgsql_command E region subregion ram ps None)
           | Some f \<Rightarrow> osm2pgsql_recommendation E ram f (out_path ps) conn_str)
          (\<lambda>osm2pgsql_command.
        io_bind (wait_for_postgres_io E conn_str)
          (\<lambda>_.
        io_bind (db_call E (Prepare_pgosm_db data_only ps conn_str) ''prepare_pgosm_db'')
          (\<lambda>_.
        io_bind (run_osm2pgsql E osm2pgsql_command ps)
          (\<lambda>_.
        let skip_nested = (if \<not> skip_nested0 then check_layerset_places (ini_files E) layerset_path layerset ps
                           else skip_nested0)
        in
        io_bind (run_post_processing E ps skip_nested conn_str)
          (\<lambda>_.
        io_bind
          (case input_file of
             None \<Rightarrow>
               io_bind (remove_latest_files region subregion ps)
                 (\<lambda>_. io_lift (get_export_filename region subregion layerset pgosm_date))
           | Some f \<Rightarrow> io_return (splitext_root f @ ''.sql''))
          (\<lambda>export_filename.
        io_bind
          (if schema_name \<noteq> ''osm'' then db_call E (Rename_schema schema_name) ''rename_schema''
           else io_return ())
          (\<lambda>_.
        if skip_dump then io_return ()
        else db_call E (Run_pg_dump export_filename (out_path ps) data_only schema_name conn_str)
               ''run_pg_dump'')))))))))))"

section \<open>Predicates on the record of external calls\<close>

definition checksum_failed :: "ext_call \<times> bool \<Rightarrow> bool" where
  "checksum_failed e = (case e of (Md5sum_c md5_file cwd, ok) \<Rightarrow> \<not> ok | _ \<Rightarrow> False)"

definition is_import :: "ext_call \<times> bool \<Rightarrow> bool" where
  "is_import e = (case e of (Osm2pgsql argv cwd, ok) \<Rightarrow> True | _ \<Rightarrow> False)"

text \<open>
  Two properties of an action, used to follow the record of calls through the pipeline.
  \<open>before_import m\<close>: from a record without a failed checksum and without an import,
  \<open>m\<close> adds no import, and a failed checksum only together with raising
  \<^verbatim>\<open>CalledProcessError\<close>. \<open>no_checksum m\<close>: \<open>m\<close> adds no failed checksum.
\<close>

definition raises_called_process_error :: "py_error + 'a \<Rightarrow> bool" where
  "raises_called_process_error r = (case r of Inl (CalledProcessError argv) \<Rightarrow> True | _ \<Rightarrow> False)"

definition before_import :: "'a io \<Rightarrow> bool" where
  "before_import m =
     (\<forall>w r w'. m w = (r, w') \<longrightarrow> \<not> list_ex checksum_failed (calls w) \<longrightarrow>
        \<not> list_ex is_import (calls w) \<longrightarrow>
        \<not> list_ex is_import (calls w') \<and>
        (\<not> list_ex checksum_failed (calls w') \<or> raises_called_process_error r))"

definition no_checksum :: "'a io \<Rightarrow> bool" where
  "no_checksum m =
     (\<forall>w r w'. m w = (r, w') \<longrightarrow> \<not> list_ex checksum_failed (calls w) \<longrightarrow>
        \<not> list_ex checksum_failed (calls w'))"

definition import_guarded :: "'a io \<Rightarrow> bool" where
  "import_guarded m =
     (\<forall>w r w'. m w = (r, w') \<longrightarrow> \<not> list_ex checksum_failed (calls w) \<longrightarrow>
        \<not> list_ex is_import (calls w) \<longrightarrow>
        \<not> list_ex checksum_failed (calls w') \<or>
        (raises_called_process_error r \<and> \<not> list_ex is_import (calls w')))"

text \<open>Oracles and inputs the examples below are run on.\<close>

definition fails_then_ready :: "nat \<Rightarrow> pystr \<Rightarrow> nat \<Rightarrow> bool" where
  "fails_then_ready N conn_str k = (N \<le> k)"


definition never_ready :: "pystr \<Rightarrow> nat \<Rightarrow> bool" where
  "never_ready conn_str k = False"

definition place_false_ini :: "string \<rightharpoonup> config" where
  "place_false_ini =
     [''/app/flex-config/layerset/default.ini'' \<mapsto> [''layerset'' \<mapsto> [''place'' \<mapsto> ''false'']]]"

text \<open>An environment in which every external call succeeds except \<^verbatim>\<open>md5sum -c\<close>,
  and no external call changes a file.\<close>

definition bad_checksum_env :: env where
  "bad_checksum_env =
     \<lparr>today = ''2021-06-01'',
      external = (\<lambda>c f. (case c of Md5sum_c md5_file cwd \<Rightarrow> False | _ \<Rightarrow> True, f)),
      pg_isready = fails_then_ready 1,
      recommended = (\<lambda>ram pbf_filename out conn_str f. ''osm2pgsql --output=flex '' @ pbf_filename),
      connection_string = (\<lambda>db_name. ''postgresql://postgres@localhost/'' @ db_name),
      ini_files = Map.empty\<rparr>"

definition empty_world :: world where
  "empty_world = \<lparr>files = Map.empty, environ = Map.empty, logger = None, polled = None, calls = []\<rparr>"

text \<open>A world whose only files are the dated pair of 2021-01-13 for the District of Columbia.\<close>

definition archived_world :: world where
  "archived_world =
     empty_world\<lparr>files :=
       [''/app/output/district-of-columbia-2021-01-13.osm.pbf'' \<mapsto> ''payload of 2021-01-13'',
        ''/app/output/district-of-columbia-2021-01-13.osm.pbf.md5'' \<mapsto> ''checksum of 2021-01-13'']\<rparr>"

text \<open>The same archive, with a stale logical pair beside it.\<close>

definition stale_world :: world where
  "stale_world =
     empty_world\<lparr>files :=
       [''/app/output/district-of-columbia-2021-01-13.osm.pbf'' \<mapsto> ''payload of 2021-01-13'',
        ''/app/output/district-of-columbia-2021-01-13.osm.pbf.md5'' \<mapsto> ''checksum of 2021-01-13'',
        ''/app/output/district-of-columbia-latest.osm.pbf'' \<mapsto> ''stale payload'',
        ''/app/output/district-of-columbia-latest.osm.pbf.md5'' \<mapsto> ''stale checksum'']\<rparr>"


text \<open>A run for the archived date 2021-01-13 in which \<^verbatim>\<open>md5sum -c\<close> fails.\<close>

definition bad_checksum_run :: "(py_error + unit) \<times> world" where
  "bad_checksum_run =
     run_pgosm_flex bad_checksum_env ''default'' None 4 (Some ''north-america/us'')
       (Some ''district-of-columbia'') ''3857'' ''2021-01-13'' None ''osm'' False False False False
       ''/app'' None None archived_world"

section \<open>Artifact names\<close>

text \<open>
  C1 (code defect). The claim: with the subregion absent, the export file name is
  \<^verbatim>\<open>pgosm-flex-{region}-{layerset}-{date}.sql\<close>. At region \<^verbatim>\<open>north-america\<close>,
  subregion \<^verbatim>\<open>None\<close>, layerset \<^verbatim>\<open>default\<close> and date \<^verbatim>\<open>2021-01-13\<close>,
  \<^verbatim>\<open>get_export_filename\<close> returns no name: \<^verbatim>\<open>subregion.replace\<close> is called before
  the test \<^verbatim>\<open>subregion is None\<close> and raises \<^verbatim>\<open>AttributeError\<close>.
\<close>

theorem export_filename_no_subregion:
  "get_export_filename (Some ''north-america'') None ''default'' ''2021-01-13'' =
     Inl (AttributeError ''NoneType object has no attribute replace'')"
  by (simp add: get_export_filename_def attr_replace_def)

text \<open>With a subregion present the name has the documented form.\<close>

lemma export_filename_with_subregion:
  "get_export_filename (Some region) (Some subregion) layerset pgosm_date =
     Inr (''pgosm-flex-'' @ py_replace region ''/'' ''-'' @ ''-'' @ py_replace subregion ''/'' ''-''
          @ ''-'' @ layerset @ ''-'' @ pgosm_date @ ''.sql'')"
  by (simp add: get_export_filename_def attr_replace_def py_str_def)

lemma replace_from_char:
  "replace_from [a] [b] s = map (\<lambda>c. if c = a then b else c) s"
  by (induction s) auto

lemma py_replace_slash:
  "py_replace s ''/'' ''-'' = map (\<lambda>c. if c = CHR ''/'' then CHR ''-'' else c) s"
  by (simp add: py_replace_def replace_from_char)

lemma export_filename_example:
  "get_export_filename (Some ''north-america/us'') (Some ''district-of-columbia'') ''default''
     ''2021-01-13'' = Inr ''pgosm-flex-north-america-us-district-of-columbia-default-2021-01-13.sql''"
  by (simp add: export_filename_with_subregion py_replace_slash)

text \<open>
  C9. \<^verbatim>\<open>get_region_filename\<close> and \<^verbatim>\<open>get_pbf_url\<close> are functions of the region and
  the subregion alone (they take no world and return none, so they do no I/O and equal
  arguments give equal strings), and their results have the stated shapes: with a
  subregion, \<^verbatim>\<open>{subregion}-latest.osm.pbf\<close> and
  \<^verbatim>\<open>{base_url}/{region}/{subregion}-latest.osm.pbf\<close>; without one,
  \<^verbatim>\<open>{region}-latest.osm.pbf\<close> and \<^verbatim>\<open>{base_url}/{region}-latest.osm.pbf\<close>.
\<close>

theorem region_filename_and_url_shapes:
  "get_region_filename (Some region) (Some subregion) = subregion @ ''-latest.osm.pbf'' \<and>
   get_pbf_url (Some region) (Some subregion) =
     base_url @ ''/'' @ region @ ''/'' @ subregion @ ''-latest.osm.pbf'' \<and>
   get_region_filename (Some region) None = region @ ''-latest.osm.pbf'' \<and>
   get_pbf_url (Some region) None = base_url @ ''/'' @ region @ ''-latest.osm.pbf''"
  by (simp add: get_region_filename_def get_pbf_url_def py_str_def)

section \<open>The nested-polygon decision\<close>

text \<open>
  C2 (code defect). The claim: a layerset file that defines \<^verbatim>\<open>place = false\<close> gives
  \<^verbatim>\<open>skip_nested = True\<close>. For the default layerset whose INI file has the section
  \<^verbatim>\<open>layerset\<close> with \<^verbatim>\<open>place = false\<close>, \<^verbatim>\<open>check_layerset_places\<close> returns
  \<^verbatim>\<open>False\<close>: the value read is the string \<^verbatim>\<open>false\<close>, which is not empty and so
  passes \<^verbatim>\<open>if place:\<close>.
\<close>

theorem place_false_does_not_skip:
  "check_layerset_places place_false_ini None ''default'' (get_paths ''/app'') = False"
  by (simp add: check_layerset_places_def place_false_ini_def get_paths_def path_join_def
      config_read_def config_get_def suffix_to_prefix)

text \<open>The rest of the decision is as documented: a missing file, section or key skips.\<close>

lemma check_layerset_places_eq:
  "check_layerset_places inis layerset_path layerset ps =
     (case config_get
             (config_read inis
                (path_join (case layerset_path of None \<Rightarrow> path_join (flex_path ps) ''layerset''
                                                | Some p \<Rightarrow> p)
                   (layerset @ ''.ini'')))
             ''layerset'' ''place'' of
        None \<Rightarrow> True
      | Some place \<Rightarrow> place = [])"
  by (simp add: check_layerset_places_def Let_def split: option.split)

lemma missing_ini_skips:
  "inis (path_join (path_join (flex_path ps) ''layerset'') (layerset @ ''.ini'')) = None \<Longrightarrow>
   check_layerset_places inis None layerset ps = True"
  by (simp add: check_layerset_places_eq config_read_def config_get_def)

section \<open>The readiness poller: proofs\<close>

lemma loop_body_ok:
  "loop_i st \<le> max_loops \<Longrightarrow>
   loop_body chk st =
     Inr (st\<lparr>found := (if chk (checks st) then found st + 1 else found st),
             loop_i := loop_i st + 1, checks := checks st + 1, sleeps := sleeps st + 1\<rparr>)"
  by (simp add: loop_body_def Let_def max_loops_def)

lemma loop_body_soft:
  "max_loops < loop_i st \<Longrightarrow> loop_body chk st = Inl (soft_err, st)"
  by (simp add: loop_body_def)

lemma loop_body_not_hard: "loop_body chk st \<noteq> Inl (hard_err, st')"
  by (simp add: loop_body_def Let_def max_loops_def soft_err_def hard_err_def)

lemma wait_loop_not_hard: "wait_loop chk st \<noteq> Exit hard_err st'"
proof (induction chk st rule: wait_loop.induct)
  case (1 chk st)
  show ?case
  proof (cases "found st < required_checks")
    case False
    then show ?thesis by (simp add: wait_loop.simps[of chk st])
  next
    case True
    show ?thesis
    proof (cases "loop_body chk st")
      case (Inl a)
      then obtain e s where a: "a = (e, s)" by (cases a)
      with Inl loop_body_not_hard[of chk st] True show ?thesis
        by (auto simp add: wait_loop.simps[of chk st])
    next
      case (Inr s)
      with True "1.IH"[of s] show ?thesis
        by (simp add: wait_loop.simps[of chk st])
    qed
  qed
qed

lemma wait_loop_step:
  "found st < required_checks \<Longrightarrow> loop_body chk st = Inr s \<Longrightarrow> wait_loop chk st = wait_loop chk s"
  by (subst wait_loop.simps) simp

lemma wait_loop_failing:
  "\<forall>k. \<not> chk k \<Longrightarrow> found st < required_checks \<Longrightarrow> loop_i st \<le> Suc max_loops \<Longrightarrow>
   wait_loop chk st =
     Exit soft_err (st\<lparr>loop_i := Suc max_loops,
                        checks := checks st + (Suc max_loops - loop_i st),
                        sleeps := sleeps st + (Suc max_loops - loop_i st)\<rparr>)"
proof (induction chk st rule: wait_loop.induct)
  case (1 chk st)
  show ?case
  proof (cases "loop_i st \<le> max_loops")
    case False
    with "1.prems" have "loop_i st = Suc max_loops" by simp
    with "1.prems"(2) show ?thesis
      by (subst wait_loop.simps) (simp add: loop_body_soft)
  next
    case True
    let ?s = "st\<lparr>found := (if chk (checks st) then found st + 1 else found st),
             loop_i := loop_i st + 1, checks := checks st + 1, sleeps := sleeps st + 1\<rparr>"
    have lb: "loop_body chk st = Inr ?s" using True by (rule loop_body_ok)
    have nf: "\<not> chk (checks st)" using "1.prems"(1) by simp
    have "wait_loop chk st = wait_loop chk ?s"
      using "1.prems"(2) lb by (rule wait_loop_step)
    also have "\<dots> = Exit soft_err (?s\<lparr>loop_i := Suc max_loops,
                        checks := checks ?s + (Suc max_loops - loop_i ?s),
                        sleeps := sleeps ?s + (Suc max_loops - loop_i ?s)\<rparr>)"
      using "1.prems" True nf by (intro "1.IH"[OF _ lb]) auto
    also have "(?s\<lparr>loop_i := Suc max_loops,
                        checks := checks ?s + (Suc max_loops - loop_i ?s),
                        sleeps := sleeps ?s + (Suc max_loops - loop_i ?s)\<rparr>)
       = st\<lparr>loop_i := Suc max_loops,
                        checks := checks st + (Suc max_loops - loop_i st),
                        sleeps := sleeps st + (Suc max_loops - loop_i st)\<rparr>"
      using True nf by simp
    finally show ?thesis .
  qed
qed

lemma wait_loop_skip_failures:
  "\<forall>k<n. \<not> chk (checks st + k) \<Longrightarrow> loop_i st + n \<le> Suc max_loops \<Longrightarrow>
   found st < required_checks \<Longrightarrow>
   wait_loop chk st =
     wait_loop chk (st\<lparr>loop_i := loop_i st + n, checks := checks st + n, sleeps := sleeps st + n\<rparr>)"
proof (induction n arbitrary: st)
  case 0
  then show ?case by simp
next
  case (Suc n)
  let ?s = "st\<lparr>found := (if chk (checks st) then found st + 1 else found st),
             loop_i := loop_i st + 1, checks := checks st + 1, sleeps := sleeps st + 1\<rparr>"
  from Suc.prems have le: "loop_i st \<le> max_loops" by simp
  have lb: "loop_body chk st = Inr ?s" using le by (rule loop_body_ok)
  from Suc.prems have nf: "\<not> chk (checks st)" by (metis add.right_neutral zero_less_Suc)
  have "wait_loop chk ?s = wait_loop chk (?s\<lparr>loop_i := loop_i ?s + n, checks := checks ?s + n, sleeps := sleeps ?s + n\<rparr>)"
  proof (rule Suc.IH)
    show "\<forall>k<n. \<not> chk (checks ?s + k)" using Suc.prems(1) by (auto dest: spec[of _ "Suc _"])
    show "loop_i ?s + n \<le> Suc max_loops" using Suc.prems by simp
    show "found ?s < required_checks" using Suc.prems nf by simp
  qed
  note ih = this
  have "wait_loop chk st = wait_loop chk ?s"
    using Suc.prems(3) lb by (rule wait_loop_step)
  also note ih
  also have "?s\<lparr>loop_i := loop_i ?s + n, checks := checks ?s + n, sleeps := sleeps ?s + n\<rparr>
     = st\<lparr>loop_i := loop_i st + Suc n, checks := checks st + Suc n, sleeps := sleeps st + Suc n\<rparr>"
    using nf by simp
  finally show ?case .
qed


text \<open>
  C3 (corrected). The claim gives N+2 invocations of the check and N+1 sleeps. The loop
  sleeps before every check, the first one included, so it sleeps N+2 times: with one
  failure before two successes the poller checks three times and sleeps three times, not
  twice.
\<close>

theorem poller_sleeps_counterexample:
  "\<not> fails_then_ready 1 None 0 \<and> fails_then_ready 1 None 1 \<and> fails_then_ready 1 None 2 \<and>
   wait_for_postgres (fails_then_ready 1) None =
     Ready \<lparr>found = 2, loop_i = 3, checks = 3, sleeps = 3\<rparr> \<and>
   sleeps \<lparr>found = 2, loop_i = 3, checks = 3, sleeps = 3\<rparr> \<noteq> 1 + 1"
proof -
  let ?chk = "fails_then_ready 1 None"
  have "wait_loop ?chk \<lparr>found = 0, loop_i = 0, checks = 0, sleeps = 0\<rparr> =
        wait_loop ?chk \<lparr>found = 0, loop_i = 1, checks = 1, sleeps = 1\<rparr>"
    by (rule wait_loop_step)
       (simp_all add: required_checks_def loop_body_ok fails_then_ready_def max_loops_def)
  also have "\<dots> = wait_loop ?chk \<lparr>found = 1, loop_i = 2, checks = 2, sleeps = 2\<rparr>"
    by (rule wait_loop_step)
       (simp_all add: required_checks_def loop_body_ok fails_then_ready_def max_loops_def)
  also have "\<dots> = wait_loop ?chk \<lparr>found = 2, loop_i = 3, checks = 3, sleeps = 3\<rparr>"
    by (rule wait_loop_step)
       (simp_all add: required_checks_def loop_body_ok fails_then_ready_def max_loops_def)
  also have "\<dots> = Ready \<lparr>found = 2, loop_i = 3, checks = 3, sleeps = 3\<rparr>"
    by (subst wait_loop.simps) (simp add: required_checks_def)
  finally show ?thesis
    by (simp add: wait_for_postgres_def fails_then_ready_def)
qed

text \<open>
  C3 as amended: for every N below the bound of 30, if the check fails on its first N
  invocations and then succeeds twice, the poller returns ready after exactly N+2
  invocations of the check and exactly N+2 sleeps.
\<close>

theorem poller_fail_then_two:
  assumes "N < max_loops"
    and "\<forall>k<N. \<not> isready conn_str k"
    and "isready conn_str N"
    and "isready conn_str (N + 1)"
  shows "wait_for_postgres isready conn_str =
           Ready \<lparr>found = 2, loop_i = N + 2, checks = N + 2, sleeps = N + 2\<rparr>"
proof -
  let ?chk = "isready conn_str"
  let ?s0 = "\<lparr>found = 0, loop_i = 0, checks = 0, sleeps = 0\<rparr>"
  let ?s1 = "\<lparr>found = 0, loop_i = N, checks = N, sleeps = N\<rparr>"
  let ?s2 = "\<lparr>found = 1, loop_i = N + 1, checks = N + 1, sleeps = N + 1\<rparr>"
  let ?s3 = "\<lparr>found = 2, loop_i = N + 2, checks = N + 2, sleeps = N + 2\<rparr>"
  have "wait_loop ?chk ?s0 = wait_loop ?chk ?s1"
    using wait_loop_skip_failures[of N ?chk ?s0] assms by (simp add: required_checks_def)
  also have "\<dots> = wait_loop ?chk ?s2"
    by (rule wait_loop_step) (use assms in \<open>simp_all add: required_checks_def loop_body_ok\<close>)
  also have "\<dots> = wait_loop ?chk ?s3"
    by (rule wait_loop_step) (use assms in \<open>simp_all add: required_checks_def loop_body_ok\<close>)
  also have "\<dots> = Ready ?s3"
    by (subst wait_loop.simps) (simp add: required_checks_def)
  finally show ?thesis by (simp add: wait_for_postgres_def)
qed

theorem poller_fail_then_two_witness:
  "(3::nat) < max_loops \<and>
   \<not> fails_then_ready 3 None 0 \<and> \<not> fails_then_ready 3 None 1 \<and> \<not> fails_then_ready 3 None 2 \<and>
   fails_then_ready 3 None 3 \<and> fails_then_ready 3 None 4 \<and>
   wait_for_postgres (fails_then_ready 3) None =
     Ready \<lparr>found = 2, loop_i = 5, checks = 5, sleeps = 5\<rparr>"
  using poller_fail_then_two [of 3 "fails_then_ready 3" None]
  by (simp add: fails_then_ready_def max_loops_def)







text \<open>
  C8. When the check always fails, the poller exits with the message of the soft bound
  once the loop counter has passed 30 (it is 31, after 31 checks), and in no execution
  does it exit with the message of the hard bound: no pass through the loop body reaches
  that branch.
\<close>

theorem poller_soft_bound:
  "((\<forall>k. \<not> isready conn_str k) \<longrightarrow>
      wait_for_postgres isready conn_str =
        Exit soft_err \<lparr>found = 0, loop_i = 31, checks = 31, sleeps = 31\<rparr>) \<and>
   (\<forall>s s'. loop_body (isready conn_str) s \<noteq> Inl (hard_err, s')) \<and>
   (\<forall>s. wait_for_postgres isready conn_str \<noteq> Exit hard_err s)"
proof (intro conjI impI allI)
  assume "\<forall>k. \<not> isready conn_str k"
  then show "wait_for_postgres isready conn_str =
        Exit soft_err \<lparr>found = 0, loop_i = 31, checks = 31, sleeps = 31\<rparr>"
    unfolding wait_for_postgres_def
    by (subst wait_loop_failing) (simp_all add: required_checks_def max_loops_def)
next
  fix s s' show "loop_body (isready conn_str) s \<noteq> Inl (hard_err, s')"
    by (rule loop_body_not_hard)
next
  fix s show "wait_for_postgres isready conn_str \<noteq> Exit hard_err s"
    unfolding wait_for_postgres_def by (rule wait_loop_not_hard)
qed

theorem poller_soft_bound_witness:
  "\<not> never_ready None 0 \<and> \<not> never_ready None 30 \<and>
   wait_for_postgres never_ready None =
     Exit soft_err \<lparr>found = 0, loop_i = 31, checks = 31, sleeps = 31\<rparr> \<and>
   (\<forall>s. wait_for_postgres never_ready None \<noteq> Exit hard_err s)"
  using poller_soft_bound [of never_ready None]
  by (simp add: never_ready_def soft_err_def hard_err_def)

section \<open>Data acquisition: proofs\<close>

text \<open>
  C4. For a run date other than today: if the dated payload file does not exist, or if it
  exists and the dated checksum file does not, \<^verbatim>\<open>prepare_data\<close> raises
  \<^verbatim>\<open>FileNotFoundError\<close> and leaves the world as it was; in particular the record of
  external calls is unchanged, so \<^verbatim>\<open>wget\<close> is never invoked.
\<close>

theorem historical_missing_aborts:
  assumes "pgosm_date \<noteq> today E"
    and "pbf_d = py_replace (path_join (out_path ps) (get_region_filename region subregion)) ''latest'' pgosm_date"
    and "\<not> path_exists (files w) pbf_d \<or> \<not> path_exists (files w) (pbf_d @ ''.md5'')"
  shows "prepare_data E region subregion pgosm_date ps w =
           (Inl (FileNotFoundError
                  (if path_exists (files w) pbf_d
                   then ''Missing MD5 file for '' @ pgosm_date @ ''. Cannot validate.''
                   else ''Missing PBF file for '' @ pgosm_date @ ''. Cannot proceed.'')), w)"
  using assms
  by (auto simp add: prepare_data_def Let_def pbf_download_needed_def io_bind_def)

theorem historical_missing_aborts_witness:
  "''2021-01-13'' \<noteq> today bad_checksum_env \<and>
   \<not> path_exists (files empty_world) ''/app/output/district-of-columbia-2021-01-13.osm.pbf'' \<and>
   prepare_data bad_checksum_env (Some ''north-america/us'') (Some ''district-of-columbia'')
     ''2021-01-13'' (get_paths ''/app'') empty_world =
     (Inl (FileNotFoundError ''Missing PBF file for 2021-01-13. Cannot proceed.''), empty_world)"
  using historical_missing_aborts [of "''2021-01-13''" bad_checksum_env
     "''/app/output/district-of-columbia-2021-01-13.osm.pbf''" "get_paths ''/app''"
     "Some ''north-america/us''" "Some ''district-of-columbia''" empty_world]
  by (simp add: bad_checksum_env_def empty_world_def path_exists_def get_paths_def path_join_def
      get_region_filename_def py_str_def py_replace_def suffix_to_prefix)



text \<open>
  C10. \<^verbatim>\<open>remove_latest_files\<close> removes the logical payload and checksum files and
  touches no other path, whatever the outcome (so the dated archive stays). It succeeds
  when both files exist. If the payload is absent it raises \<^verbatim>\<open>FileNotFoundError\<close>
  with nothing removed; if only the checksum is absent it raises
  \<^verbatim>\<open>FileNotFoundError\<close> after the payload has been removed.
\<close>

theorem remove_latest_files_effect:
  assumes "pbf = path_join (out_path ps) (get_region_filename region subregion)"
    and "md5 = pbf @ ''.md5''"
  shows "(path_exists (files w) pbf \<and> path_exists (files w) md5 \<longrightarrow>
            remove_latest_files region subregion ps w =
              (Inr (), w\<lparr>files := (files w)(pbf := None, md5 := None)\<rparr>)) \<and>
         (\<not> path_exists (files w) pbf \<longrightarrow>
            remove_latest_files region subregion ps w = (Inl (FileNotFoundError pbf), w)) \<and>
         (path_exists (files w) pbf \<and> \<not> path_exists (files w) md5 \<longrightarrow>
            remove_latest_files region subregion ps w =
              (Inl (FileNotFoundError md5), w\<lparr>files := (files w)(pbf := None)\<rparr>)) \<and>
         (\<forall>p. p \<noteq> pbf \<and> p \<noteq> md5 \<longrightarrow>
            files (snd (remove_latest_files region subregion ps w)) p = files w p)"
  using assms
  by (auto simp add: remove_latest_files_def Let_def os_remove_def io_bind_def path_exists_def)

theorem remove_latest_files_effect_witness:
  "path_exists (files stale_world) ''/app/output/district-of-columbia-latest.osm.pbf'' \<and>
   path_exists (files stale_world) ''/app/output/district-of-columbia-latest.osm.pbf.md5'' \<and>
   remove_latest_files (Some ''north-america/us'') (Some ''district-of-columbia'') (get_paths ''/app'')
     stale_world =
     (Inr (), stale_world\<lparr>files := (files stale_world)
        (''/app/output/district-of-columbia-latest.osm.pbf'' := None,
         ''/app/output/district-of-columbia-latest.osm.pbf.md5'' := None)\<rparr>) \<and>
   \<not> path_exists (files archived_world) ''/app/output/district-of-columbia-latest.osm.pbf'' \<and>
   remove_latest_files (Some ''north-america/us'') (Some ''district-of-columbia'') (get_paths ''/app'')
     archived_world =
     (Inl (FileNotFoundError ''/app/output/district-of-columbia-latest.osm.pbf''), archived_world)"
  using remove_latest_files_effect [of "''/app/output/district-of-columbia-latest.osm.pbf''"
      "get_paths ''/app''" "Some ''north-america/us''" "Some ''district-of-columbia''"
      "''/app/output/district-of-columbia-latest.osm.pbf.md5''" stale_world]
    remove_latest_files_effect [of "''/app/output/district-of-columbia-latest.osm.pbf''"
      "get_paths ''/app''" "Some ''north-america/us''" "Some ''district-of-columbia''"
      "''/app/output/district-of-columbia-latest.osm.pbf.md5''" archived_world]
  by (simp add: path_exists_def stale_world_def archived_world_def empty_world_def get_paths_def
      path_join_def get_region_filename_def py_str_def suffix_to_prefix)

section \<open>The pipeline: proofs\<close>

lemma before_import_return: "before_import (io_return x)"
  by (simp add: before_import_def io_return_def)

lemma before_import_raise: "before_import (io_raise e)"
  by (simp add: before_import_def io_raise_def)

lemma before_import_lift: "before_import (io_lift r)"
  by (simp add: before_import_def io_lift_def)

lemma before_import_bind:
  assumes "before_import m" "\<And>x. before_import (f x)"
  shows "before_import (io_bind m f)"
  unfolding before_import_def
proof (intro allI impI)
  fix w r w'
  assume run: "io_bind m f w = (r, w')"
    and nf: "\<not> list_ex checksum_failed (calls w)" and ni: "\<not> list_ex is_import (calls w)"
  obtain r1 w1 where m: "m w = (r1, w1)" by (cases "m w")
  from assms(1) m nf ni have ni1: "\<not> list_ex is_import (calls w1)"
    and alt: "\<not> list_ex checksum_failed (calls w1) \<or> raises_called_process_error r1"
    unfolding before_import_def by blast+
  show "\<not> list_ex is_import (calls w') \<and>
        (\<not> list_ex checksum_failed (calls w') \<or> raises_called_process_error r)"
  proof (cases r1)
    case (Inl e)
    with run m have "r = Inl e" "w' = w1" by (simp_all add: io_bind_def)
    with ni1 alt Inl show ?thesis by (simp add: raises_called_process_error_def)
  next
    case (Inr x)
    with run m have fx: "f x w1 = (r, w')" by (simp add: io_bind_def)
    from alt Inr have "\<not> list_ex checksum_failed (calls w1)"
      by (simp add: raises_called_process_error_def)
    with assms(2)[of x] fx ni1 show ?thesis unfolding before_import_def by blast
  qed
qed

lemma no_checksum_return: "no_checksum (io_return x)"
  by (simp add: no_checksum_def io_return_def)

lemma no_checksum_raise: "no_checksum (io_raise e)"
  by (simp add: no_checksum_def io_raise_def)

lemma no_checksum_lift: "no_checksum (io_lift r)"
  by (simp add: no_checksum_def io_lift_def)

lemma no_checksum_bind:
  assumes "no_checksum m" "\<And>x. no_checksum (f x)"
  shows "no_checksum (io_bind m f)"
  unfolding no_checksum_def
proof (intro allI impI)
  fix w r w'
  assume run: "io_bind m f w = (r, w')" and nf: "\<not> list_ex checksum_failed (calls w)"
  obtain r1 w1 where m: "m w = (r1, w1)" by (cases "m w")
  from assms(1) m nf have nf1: "\<not> list_ex checksum_failed (calls w1)"
    unfolding no_checksum_def by blast
  show "\<not> list_ex checksum_failed (calls w')"
  proof (cases r1)
    case (Inl e)
    with run m nf1 show ?thesis by (simp add: io_bind_def)
  next
    case (Inr x)
    with run m have "f x w1 = (r, w')" by (simp add: io_bind_def)
    with assms(2)[of x] nf1 show ?thesis unfolding no_checksum_def by blast
  qed
qed

lemma import_guarded_bind:
  assumes "before_import m" "\<And>x. import_guarded (f x)"
  shows "import_guarded (io_bind m f)"
  unfolding import_guarded_def
proof (intro allI impI)
  fix w r w'
  assume run: "io_bind m f w = (r, w')"
    and nf: "\<not> list_ex checksum_failed (calls w)" and ni: "\<not> list_ex is_import (calls w)"
  obtain r1 w1 where m: "m w = (r1, w1)" by (cases "m w")
  from assms(1) m nf ni have ni1: "\<not> list_ex is_import (calls w1)"
    and alt: "\<not> list_ex checksum_failed (calls w1) \<or> raises_called_process_error r1"
    unfolding before_import_def by blast+
  show "\<not> list_ex checksum_failed (calls w') \<or>
        (raises_called_process_error r \<and> \<not> list_ex is_import (calls w'))"
  proof (cases r1)
    case (Inl e)
    with run m have "r = Inl e" "w' = w1" by (simp_all add: io_bind_def)
    with ni1 alt Inl show ?thesis by (auto simp add: raises_called_process_error_def)
  next
    case (Inr x)
    with run m have fx: "f x w1 = (r, w')" by (simp add: io_bind_def)
    from alt Inr have "\<not> list_ex checksum_failed (calls w1)"
      by (simp add: raises_called_process_error_def)
    with assms(2)[of x] fx ni1 show ?thesis unfolding import_guarded_def by blast
  qed
qed

lemma import_guarded_no_checksum: "no_checksum m \<Longrightarrow> import_guarded m"
  unfolding no_checksum_def import_guarded_def by blast

lemma import_guarded_raise: "import_guarded (io_raise e)"
  by (simp add: import_guarded_def io_raise_def)


lemma run_external_calls:
  assumes "run_external E c w = (r, w')"
  shows "\<exists>ok. r = Inr ok \<and> calls w' = calls w @ [(c, ok)]"
proof -
  obtain ok f where e: "external E c (files w) = (ok, f)" by (cases "external E c (files w)")
  then have "run_external E c w = (Inr ok, w\<lparr>files := f, calls := calls w @ [(c, ok)]\<rparr>)"
    by (simp add: run_external_def)
  with assms have "r = Inr ok" and "w' = w\<lparr>files := f, calls := calls w @ [(c, ok)]\<rparr>"
    by simp_all
  then show ?thesis by simp
qed

lemma before_import_external:
  assumes "\<And>ok. \<not> is_import (c, ok)" "\<And>ok. \<not> checksum_failed (c, ok)"
  shows "before_import (run_external E c)"
  unfolding before_import_def
proof (intro allI impI)
  fix w r w'
  assume "run_external E c w = (r, w')"
    and nf: "\<not> list_ex checksum_failed (calls w)" and ni: "\<not> list_ex is_import (calls w)"
  then obtain ok where "calls w' = calls w @ [(c, ok)]"
    using run_external_calls by blast
  with nf ni assms show "\<not> list_ex is_import (calls w') \<and>
        (\<not> list_ex checksum_failed (calls w') \<or> raises_called_process_error r)"
    by simp
qed

lemma no_checksum_external:
  assumes "\<And>ok. \<not> checksum_failed (c, ok)"
  shows "no_checksum (run_external E c)"
  unfolding no_checksum_def
proof (intro allI impI)
  fix w r w'
  assume "run_external E c w = (r, w')" and nf: "\<not> list_ex checksum_failed (calls w)"
  then obtain ok where "calls w' = calls w @ [(c, ok)]"
    using run_external_calls by blast
  with nf assms show "\<not> list_ex checksum_failed (calls w')" by simp
qed


lemma before_import_subprocess:
  assumes "\<And>ok. \<not> is_import (c, ok)" "\<And>ok. \<not> checksum_failed (c, ok)"
  shows "before_import (subprocess_run E c argv)"
  unfolding subprocess_run_def
  by (intro before_import_bind before_import_external assms)
     (simp add: before_import_return before_import_raise)

lemma before_import_db:
  assumes "\<And>ok. \<not> is_import (c, ok)" "\<And>ok. \<not> checksum_failed (c, ok)"
  shows "before_import (db_call E c name)"
  unfolding db_call_def
  by (intro before_import_bind before_import_external assms)
     (simp add: before_import_return before_import_raise)

lemma no_checksum_subprocess:
  assumes "\<And>ok. \<not> checksum_failed (c, ok)"
  shows "no_checksum (subprocess_run E c argv)"
  unfolding subprocess_run_def
  by (intro no_checksum_bind no_checksum_external assms)
     (simp add: no_checksum_return no_checksum_raise)

lemma no_checksum_db:
  assumes "\<And>ok. \<not> checksum_failed (c, ok)"
  shows "no_checksum (db_call E c name)"
  unfolding db_call_def
  by (intro no_checksum_bind no_checksum_external assms)
     (simp add: no_checksum_return no_checksum_raise)

lemma before_import_verify: "before_import (verify_checksum E md5_file ps)"
  unfolding before_import_def
proof (intro allI impI)
  fix w r w'
  let ?c = "Md5sum_c md5_file (out_path ps)"
  assume run: "verify_checksum E md5_file ps w = (r, w')"
    and nf: "\<not> list_ex checksum_failed (calls w)" and ni: "\<not> list_ex is_import (calls w)"
  obtain r1 w1 where e: "run_external E ?c w = (r1, w1)" by (cases "run_external E ?c w")
  then obtain ok where ok: "r1 = Inr ok" "calls w1 = calls w @ [(?c, ok)]"
    using run_external_calls by blast
  from run e ok have res: "w' = w1" "r = (if ok then Inr () else Inl (CalledProcessError [''md5sum'', ''-c'', md5_file]))"
    by (simp_all add: verify_checksum_def subprocess_run_def io_bind_def io_return_def io_raise_def
          split: if_splits)
  show "\<not> list_ex is_import (calls w') \<and>
        (\<not> list_ex checksum_failed (calls w') \<or> raises_called_process_error r)"
    using res ok nf ni
    by (simp add: is_import_def checksum_failed_def raises_called_process_error_def)
qed

lemma before_import_silent:
  assumes "\<And>w r w'. m w = (r, w') \<Longrightarrow> calls w' = calls w"
  shows "before_import m"
  unfolding before_import_def
proof (intro allI impI)
  fix w r w'
  assume run: "m w = (r, w')"
    and nf: "\<not> list_ex checksum_failed (calls w)" and ni: "\<not> list_ex is_import (calls w)"
  from run have "calls w' = calls w" by (rule assms)
  with nf ni show "\<not> list_ex is_import (calls w') \<and>
        (\<not> list_ex checksum_failed (calls w') \<or> raises_called_process_error r)"
    by simp
qed

lemma no_checksum_silent:
  assumes "\<And>w r w'. m w = (r, w') \<Longrightarrow> calls w' = calls w"
  shows "no_checksum m"
  unfolding no_checksum_def
proof (intro allI impI)
  fix w r w'
  assume run: "m w = (r, w')" and nf: "\<not> list_ex checksum_failed (calls w)"
  from run have "calls w' = calls w" by (rule assms)
  with nf show "\<not> list_ex checksum_failed (calls w')" by simp
qed

lemma copy2_calls: "copy2 src dst w = (r, w') \<Longrightarrow> calls w' = calls w"
  by (cases "files w src") (auto simp: copy2_def split: if_splits)

lemma os_remove_calls: "os_remove p w = (r, w') \<Longrightarrow> calls w' = calls w"
  by (auto simp: os_remove_def split: if_splits)

lemma before_import_copy2: "before_import (copy2 src dst)"
  by (rule before_import_silent) (rule copy2_calls)

lemma no_checksum_os_remove: "no_checksum (os_remove p)"
  by (rule no_checksum_silent) (rule os_remove_calls)


lemma before_import_copy_if_absent:
  "before_import (\<lambda>w. if path_exists (files w) dst then io_return () w else copy2 src dst w)"
  by (rule before_import_silent) (auto simp: io_return_def dest: copy2_calls split: if_splits)

lemma before_import_archive: "before_import (archive_data a b c d)"
  unfolding archive_data_def
  by (intro before_import_bind before_import_copy_if_absent)

lemma before_import_unarchive: "before_import (unarchive_data a b c d)"
  unfolding unarchive_data_def
  by (intro before_import_bind before_import_copy2)

lemma before_import_download: "before_import (download_data E region subregion pbf_file md5_file)"
  unfolding download_data_def Let_def
  by (intro before_import_bind before_import_subprocess)
     (simp_all add: is_import_def checksum_failed_def)

lemma before_import_needed:
  "before_import (\<lambda>w. (pbf_download_needed E a b d (files w), w))"
  by (rule before_import_silent) simp

lemma before_import_acquire:
  "before_import
     (if needed
      then io_bind (download_data E region subregion a b) (\<lambda>_. archive_data a b c d)
      else unarchive_data a b c d)"
  by (simp add: before_import_bind before_import_download before_import_archive
        before_import_unarchive)

lemma before_import_prepare_data: "before_import (prepare_data E region subregion pgosm_date ps)"
  unfolding prepare_data_def Let_def
  by (intro before_import_bind before_import_needed before_import_acquire
        before_import_verify before_import_return)

lemma before_import_recommended:
  "before_import (\<lambda>w. (Inr (recommended E ram f out conn_str (files w)), w))"
  by (rule before_import_silent) simp

lemma before_import_recommendation: "before_import (osm2pgsql_recommendation E ram f out conn_str)"
  unfolding osm2pgsql_recommendation_def
proof (intro before_import_bind before_import_external)
  fix ok
  show "before_import
          (if ok then (\<lambda>w. (Inr (recommended E ram f out conn_str (files w)), w))
           else io_raise (CollaboratorError ''osm2pgsql_recommendation''))"
    by (simp add: before_import_recommended before_import_raise)
qed (simp_all add: is_import_def checksum_failed_def)

lemma before_import_command:
  "before_import (get_osm2pgsql_command E region subregion ram ps conn_str)"
  unfolding get_osm2pgsql_command_def Let_def by (rule before_import_recommendation)

lemma before_import_setup_logger: "before_import (setup_logger log_file debug)"
  by (rule before_import_silent) (auto simp: setup_logger_def)

lemma before_import_set_env_vars:
  "before_import (set_env_vars E region subregion srid language pgosm_date layerset layerset_path conn_str)"
  by (rule before_import_silent) (auto simp: set_env_vars_def Let_def)

lemma before_import_wait: "before_import (wait_for_postgres_io E conn_str)"
  by (rule before_import_silent) (auto simp: wait_for_postgres_io_def split: outcome.splits)

lemma no_checksum_remove_latest: "no_checksum (remove_latest_files region subregion ps)"
  unfolding remove_latest_files_def Let_def
  by (intro no_checksum_bind no_checksum_os_remove)

lemma no_checksum_post: "no_checksum (run_post_processing E ps skip conn_str)"
  unfolding run_post_processing_def
proof (intro no_checksum_bind no_checksum_db)
  fix u :: unit
  show "no_checksum (if skip then io_return ()
          else db_call E (Pgosm_nested_admin_polygons ps conn_str) ''pgosm_nested_admin_polygons'')"
    by (simp add: no_checksum_return no_checksum_db checksum_failed_def)
qed (simp add: checksum_failed_def)

lemma no_checksum_import: "no_checksum (run_osm2pgsql E cmd ps)"
  unfolding run_osm2pgsql_def
  by (intro no_checksum_subprocess) (simp add: checksum_failed_def)


lemma before_import_log_file:
  "before_import
     (case input_file of
        Some f \<Rightarrow> io_return (path_join out (basename f @ ''.log''))
      | None \<Rightarrow> io_lift (get_log_path region subregion ps))"
  by (cases input_file) (simp_all add: before_import_return before_import_lift)

lemma before_import_command_for:
  "before_import
     (case input_file of
        None \<Rightarrow>
          io_bind (prepare_data E region subregion pgosm_date ps)
            (\<lambda>_. get_osm2pgsql_command E region subregion ram ps None)
      | Some f \<Rightarrow> osm2pgsql_recommendation E ram f out conn_str)"
  by (cases input_file)
     (simp_all add: before_import_bind before_import_prepare_data before_import_command
        before_import_recommendation)

lemma no_checksum_export_filename:
  "no_checksum
     (case input_file of
        None \<Rightarrow>
          io_bind (remove_latest_files region subregion ps)
            (\<lambda>_. io_lift (get_export_filename region subregion layerset pgosm_date))
      | Some f \<Rightarrow> io_return (splitext_root f @ ''.sql''))"
  by (cases input_file)
     (simp_all add: no_checksum_bind no_checksum_remove_latest no_checksum_lift no_checksum_return)

lemma no_checksum_rename:
  "no_checksum
     (if schema_name \<noteq> ''osm'' then db_call E (Rename_schema schema_name) ''rename_schema''
      else io_return ())"
  by (simp add: no_checksum_db no_checksum_return checksum_failed_def)

lemma no_checksum_dump:
  "no_checksum
     (if skip_dump then io_return ()
      else db_call E (Run_pg_dump export_filename out data_only schema_name conn_str) ''run_pg_dump'')"
  by (simp add: no_checksum_db no_checksum_return checksum_failed_def)

lemma run_import_guarded:
  "import_guarded (run_pgosm_flex E layerset layerset_path ram region subregion0 srid pgosm_date
      language schema_name skip_nested0 data_only skip_dump debug basepath input_file conn_str)"
proof (cases "region = None \<and> input_file = None")
  case True
  then show ?thesis by (simp add: run_pgosm_flex_def import_guarded_raise)
next
  case False
  then show ?thesis
    unfolding run_pgosm_flex_def Let_def
    apply (simp only: if_False)
    apply (rule import_guarded_bind)
     apply (rule before_import_log_file)
    apply (rule import_guarded_bind)
     apply (rule before_import_setup_logger)
    apply (rule import_guarded_bind)
     apply (rule before_import_set_env_vars)
    apply (rule import_guarded_bind)
     apply (rule before_import_command_for)
    apply (rule import_guarded_bind)
     apply (rule before_import_wait)
    apply (rule import_guarded_bind)
     apply (rule before_import_db)
      apply (simp add: is_import_def)
     apply (simp add: checksum_failed_def)
    apply (rule import_guarded_no_checksum)
    apply (intro no_checksum_bind no_checksum_import no_checksum_post
        no_checksum_export_filename no_checksum_rename no_checksum_dump)
    done
qed

text \<open>
  C5. In every run that starts with an empty record of external calls: if the record of
  the finished run holds a failed \<^verbatim>\<open>md5sum -c\<close>, the run ended by raising
  \<^verbatim>\<open>CalledProcessError\<close> and the record holds no call of the import command.
\<close>

theorem checksum_failure_stops_before_import:
  assumes "calls w = []"
    and "run_pgosm_flex E layerset layerset_path ram region subregion srid pgosm_date
           language schema_name skip_nested data_only skip_dump debug basepath input_file conn_str w
         = (r, w')"
    and "list_ex checksum_failed (calls w')"
  shows "raises_called_process_error r \<and> \<not> list_ex is_import (calls w')"
  using run_import_guarded[unfolded import_guarded_def, rule_format, OF assms(2)] assms(1,3)
  by simp

lemma bad_checksum_run_eval:
  "fst bad_checksum_run =
     Inl (CalledProcessError
            [''md5sum'', ''-c'', ''/app/output/district-of-columbia-latest.osm.pbf.md5'']) \<and>
   calls (snd bad_checksum_run) =
     [(Md5sum_c ''/app/output/district-of-columbia-latest.osm.pbf.md5'' ''/app/output'', False)]"
  by (simp add: bad_checksum_run_def run_pgosm_flex_def get_log_path_def attr_replace_def
      io_lift_def setup_logger_def set_env_vars_def prepare_data_def get_region_filename_def
      py_str_def get_paths_def path_join_def suffix_to_prefix py_replace_def Let_def
      pbf_download_needed_def path_exists_def archived_world_def empty_world_def io_bind_def
      unarchive_data_def copy2_def verify_checksum_def subprocess_run_def run_external_def
      bad_checksum_env_def io_raise_def io_return_def DEFAULT_SRID_def)

theorem checksum_failure_stops_before_import_witness:
  "calls archived_world = [] \<and>
   list_ex checksum_failed (calls (snd bad_checksum_run)) \<and>
   raises_called_process_error (fst bad_checksum_run) \<and>
   \<not> list_ex is_import (calls (snd bad_checksum_run))"
proof -
  have 1: "calls archived_world = []"
    by (simp add: archived_world_def empty_world_def)
  have 2: "run_pgosm_flex bad_checksum_env ''default'' None 4 (Some ''north-america/us'')
       (Some ''district-of-columbia'') ''3857'' ''2021-01-13'' None ''osm'' False False False False
       ''/app'' None None archived_world = (fst bad_checksum_run, snd bad_checksum_run)"
    by (simp add: bad_checksum_run_def)
  have 3: "list_ex checksum_failed (calls (snd bad_checksum_run))"
    by (simp add: bad_checksum_run_eval checksum_failed_def)
  from checksum_failure_stops_before_import [OF 1 2 3] 1 3 show ?thesis by simp
qed

end
